theory Spec2Isabelle
  imports Main
begin

section \<open>The graph view component (src/components/graph-view.ts)\<close>

text \<open>
  The component keeps two pieces of state of its own: the merged graph
  (\<open>graphData\<close>) and the page cursor (\<open>currentFileIndex\<close>). Everything else it
  holds is a handle into the d3 library (selections, the force simulation); of
  these the model keeps whether they are set.

  Conventions of the embedding.
  \<^item> A JavaScript string is a HOL \<open>string\<close>, one \<open>char\<close> for each code unit (the
    addresses, ids and categories of the data source are ASCII); \<open>===\<close> on
    strings and the key comparison of \<open>Map\<close> are equality of these lists, and
    \<open>slice\<close> counts code units.
  \<^item> An optional field (\<open>address_name?\<close>, \<open>type?\<close>, \<open>source\<close>, \<open>target\<close>) is an
    \<open>option\<close>, \<open>None\<close> standing for \<open>undefined\<close>.
  \<^item> The fields \<open>x y vx vy fx fy\<close> of a node and \<open>index\<close> of a link are written
    only by the d3 simulation and by the drag handlers and are read only by
    \<open>ticked\<close>; they are left out, so a node is the triple of attributes that the
    data source delivers. None of the functions below reads or writes them.
  \<^item> \<open>source\<close> and \<open>target\<close> of a link point to node objects. With the layout
    fields left out nothing ever writes to a node object, so a pointer is given
    by the node it points to.
  \<^item> \<open>currentFileIndex\<close> is a JavaScript number holding a small whole number; it
    is an \<open>int\<close>.
  \<^item> The d3 library is not part of this source file. Of the calls that
    \<open>renderGraph\<close> makes into it, the first one, \<open>linkForce.links(...)\<close>, is
    modelled by what d3-force does with the links it is handed; whether the
    remaining calls return or throw is an input of the model
    (\<open>render_outcome\<close>).
\<close>

subsection \<open>Data model\<close>

record GraphNode =
  address :: string
  address_name :: "string option"
  node_type :: "string option"

record GraphLink =
  link_id :: string
  link_from :: string
  link_to :: string
  source :: "GraphNode option"
  target :: "GraphNode option"

record GraphData =
  nodes :: "GraphNode list"
  links :: "GraphLink list"

text \<open>
  \<open>simulation\<close> says whether the field of that name is set. \<open>initSvg\<close> sets it
  together with the three group selections; nothing unsets it.
\<close>

record GraphView =
  graphData :: GraphData
  currentFileIndex :: int
  simulation :: bool

text \<open>The field initialisers of the class (lines 70-73, 81 and 83).\<close>

definition init :: GraphView where
  "init = \<lparr>graphData = \<lparr>nodes = [], links = []\<rparr>, currentFileIndex = 1, simulation = False\<rparr>"

subsection \<open>The JavaScript built-ins the component uses\<close>

text \<open>
  \<open>String.prototype.slice(start, end)\<close>: a negative index counts from the end,
  both indices are clamped to the string, and an empty string results when the
  start is not before the end. \<open>None\<close> is an omitted \<open>end\<close>.
\<close>

definition slice :: "string \<Rightarrow> int \<Rightarrow> int option \<Rightarrow> string" where
  "slice s start fin =
     (let len = int (length s);
          k = (if start < 0 then max (len + start) 0 else min start len);
          e = (case fin of None \<Rightarrow> len | Some i \<Rightarrow> i);
          final = (if e < 0 then max (len + e) 0 else min e len)
      in if final \<le> k then [] else take (nat (final - k)) (drop (nat k) s))"

text \<open>
  A \<open>Map\<close> is the list of its entries in insertion order. \<open>set\<close> on a key that
  is present replaces the value where the entry stands; on a new key it appends
  the entry. \<open>new Map(entries)\<close> calls \<open>set\<close> for every entry in turn.
\<close>

type_synonym ('k, 'v) js_map = "('k \<times> 'v) list"

primrec Map_set :: "'k \<Rightarrow> 'v \<Rightarrow> ('k, 'v) js_map \<Rightarrow> ('k, 'v) js_map" where
  "Map_set k v [] = [(k, v)]"
| "Map_set k v (e # es) = (if fst e = k then (k, v) # es else e # Map_set k v es)"

definition Map_has :: "('k, 'v) js_map \<Rightarrow> 'k \<Rightarrow> bool" where
  "Map_has m k = list_ex (\<lambda>e. fst e = k) m"

definition Map_new :: "('k \<times> 'v) list \<Rightarrow> ('k, 'v) js_map" where
  "Map_new entries = fold (\<lambda>e m. Map_set (fst e) (snd e) m) entries []"

definition Map_values :: "('k, 'v) js_map \<Rightarrow> 'v list" where
  "Map_values m = map snd m"

subsection \<open>Colour and label of a node (lines 251-275)\<close>

definition getNodeColor :: "GraphNode \<Rightarrow> string" where
  "getNodeColor node =
     (if node_type node = Some ''cex'' then ''orange''
      else if node_type node = Some ''stakingpool'' then ''purple''
      else if node_type node = Some ''token'' then ''green''
      else if node_type node = Some ''dao'' then ''blue''
      else if node_type node = Some ''gambling'' then ''red''
      else ''#666'')"

text \<open>
  \<open>if (node.address_name)\<close> tests truthiness: \<open>undefined\<close> and the empty string
  are both falsy.
\<close>

definition truthy :: "string option \<Rightarrow> bool" where
  "truthy v = (case v of None \<Rightarrow> False | Some s \<Rightarrow> s \<noteq> [])"

definition getNodeLabel :: "GraphNode \<Rightarrow> string" where
  "getNodeLabel node =
     (if truthy (address_name node) then the (address_name node)
      else slice (address node) 0 (Some 6) @ ''...'' @ slice (address node) (- 4) None)"

subsection \<open>Merging a page into the graph (lines 139-170)\<close>

datatype render_outcome = Rendered | RenderThrew

datatype completion = Normal | Thrown

text \<open>
  The link force of d3-force, handed its links (\<open>forceLink.links\<close>), goes through
  them and replaces every \<open>source\<close> and \<open>target\<close> that is not an object by the
  node of that id, throwing \<open>Error("node not found: ...")\<close> when there is none.
  \<open>undefined\<close> is not an object and is the id of no node, so the call throws as
  soon as a link has an endpoint that the merge left unresolved.
\<close>

definition forceLink_links :: "GraphLink list \<Rightarrow> completion" where
  "forceLink_links ls =
     (if list_ex (\<lambda>l. source l = None \<or> target l = None) ls then Thrown else Normal)"

text \<open>
  \<open>renderGraph\<close> (lines 173-248) returns at once while \<open>simulation\<close> is unset
  (line 174). Otherwise it hands \<open>graphData.links\<close> to the link force (line 178)
  and then reconciles the scene and restarts the simulation; \<open>r\<close> is the outcome
  of these later d3 calls. Of the component's own state it reads \<open>graphData\<close> and
  writes nothing, so what is left of it here is whether it returns.
\<close>

definition renderGraph :: "render_outcome \<Rightarrow> GraphView \<Rightarrow> completion" where
  "renderGraph r this =
     (if \<not> simulation this then Normal
      else (case forceLink_links (links (graphData this)) of
              Thrown \<Rightarrow> Thrown
            | Normal \<Rightarrow> (case r of Rendered \<Rightarrow> Normal | RenderThrew \<Rightarrow> Thrown)))"

text \<open>
  \<open>updateGraph\<close>: the bindings follow the source line by line. The
  \<open>forEach\<close> over \<open>mergedLinks\<close> assigns \<open>source\<close> and \<open>target\<close> of every link
  object; the links of the result carry the assigned values. The assignment to
  \<open>this.graphData\<close> comes before the call of \<open>renderGraph\<close>, so it is in the
  state also when that call throws.
\<close>

definition updateGraph :: "GraphView \<Rightarrow> GraphData \<Rightarrow> render_outcome \<Rightarrow> GraphView \<times> completion" where
  "updateGraph this newData r =
     (let existingNodesMap = Map_new (map (\<lambda>n. (address n, n)) (nodes (graphData this)));
          existingNodesMap =
            fold (\<lambda>node m. if \<not> Map_has m (address node) then Map_set (address node) node m else m)
              (nodes newData) existingNodesMap;
          mergedNodes = Map_values existingNodesMap;
          existingLinksMap = Map_new (map (\<lambda>l. (link_id l, l)) (links (graphData this)));
          existingLinksMap =
            fold (\<lambda>link m. if \<not> Map_has m (link_id link) then Map_set (link_id link) link m else m)
              (links newData) existingLinksMap;
          mergedLinks = Map_values existingLinksMap;
          mergedLinks =
            map (\<lambda>link. link\<lparr>source := find (\<lambda>n. address n = link_from link) mergedNodes,
                               target := find (\<lambda>n. address n = link_to link) mergedNodes\<rparr>)
              mergedLinks;
          this = this\<lparr>graphData := \<lparr>nodes = mergedNodes, links = mergedLinks\<rparr>\<rparr>
      in (this, renderGraph r this))"

subsection \<open>Fetching a page (lines 85-105)\<close>

text \<open>
  What the two awaited calls can deliver: \<open>fetch\<close> rejects, the response is not
  \<open>ok\<close>, \<open>resp.json()\<close> rejects, or a document of the declared type arrives.
\<close>

datatype response = FetchRejected | NotOk | JsonRejected | Json GraphData

datatype console =
    Error_load int string
  | Log_not_found string int
  | Error_request
  | Log_click string int

text \<open>
  The body of the \<open>try\<close> block. The component's state is not read before the
  second \<open>await\<close> has delivered, so \<open>this\<close> is the state at that moment;
  \<open>fileIndex\<close> and \<open>address\<close> are the arguments of the call.
\<close>

definition fetchGraphData_try ::
  "GraphView \<Rightarrow> int \<Rightarrow> string \<Rightarrow> response \<Rightarrow> render_outcome \<Rightarrow> GraphView \<times> console list \<times> completion" where
  "fetchGraphData_try this fileIndex addr resp r =
     (case resp of
        FetchRejected \<Rightarrow> (this, [], Thrown)
      | NotOk \<Rightarrow> (this, [Error_load fileIndex addr], Normal)
      | JsonRejected \<Rightarrow> (this, [], Thrown)
      | Json data \<Rightarrow>
          (let linkContainsAddressTo = list_ex (\<lambda>link. link_from link = addr) (links data)
           in if linkContainsAddressTo then
                (case updateGraph this data r of
                   (this, Thrown) \<Rightarrow> (this, [], Thrown)
                 | (this, Normal) \<Rightarrow>
                     (this\<lparr>currentFileIndex := currentFileIndex this + 1\<rparr>, [], Normal))
              else (this, [Log_not_found addr fileIndex], Normal)))"

text \<open>The \<open>catch\<close> clause logs and returns.\<close>

definition fetchGraphData ::
  "GraphView \<Rightarrow> int \<Rightarrow> string \<Rightarrow> response \<Rightarrow> render_outcome \<Rightarrow> GraphView \<times> console list \<times> completion" where
  "fetchGraphData this fileIndex addr resp r =
     (case fetchGraphData_try this fileIndex addr resp r of
        (this, out, Thrown) \<Rightarrow> (this, out @ [Error_request], Normal)
      | (this, out, Normal) \<Rightarrow> (this, out, Normal))"

subsection \<open>Clicking a node (lines 300-307) and the first render (lines 107-110)\<close>

text \<open>
  A call of \<open>fetchGraphData\<close> that is not awaited sends the request and returns;
  the request is the pair of the page index and the address that the URL
  \<open>/data/<fileIndex>.json?address=<address>\<close> is made of.
\<close>

type_synonym request = "int \<times> string"

definition onNodeClick :: "GraphView \<Rightarrow> GraphNode \<Rightarrow> GraphView \<times> console list \<times> request option" where
  "onNodeClick this d =
     (this, [Log_click (address d) (currentFileIndex this)],
      if currentFileIndex this \<le> 3 then Some (currentFileIndex this, address d) else None)"

definition seed :: string where
  "seed = ''0x2be59e62d811a1a8a25a937c4812313cf8bbe428''"

text \<open>\<open>firstUpdated\<close> runs \<open>initSvg\<close>, which sets the d3 handles, and sends the first request.\<close>

definition initSvg :: "GraphView \<Rightarrow> GraphView" where
  "initSvg this = this\<lparr>simulation := True\<rparr>"

definition firstUpdated :: "GraphView \<Rightarrow> GraphView \<times> request option" where
  "firstUpdated this = (let this = initSvg this in (this, Some (currentFileIndex this, seed)))"

subsection \<open>A session\<close>

text \<open>
  The events that reach the component's own state: the first render, a click on
  a node, and the arrival of the answer to a request. Drag and tick events
  write the layout fields only.
\<close>

datatype event =
    FirstUpdated
  | NodeClick GraphNode
  | FetchSettled int string response render_outcome

fun step :: "GraphView \<Rightarrow> event \<Rightarrow> GraphView" where
  "step this FirstUpdated = fst (firstUpdated this)"
| "step this (NodeClick d) = fst (onNodeClick this d)"
| "step this (FetchSettled fileIndex addr resp r) = fst (fetchGraphData this fileIndex addr resp r)"

definition run :: "event list \<Rightarrow> GraphView" where
  "run evs = foldl step init evs"

text \<open>Addresses and ids are keys: no two entries of the graph share one.\<close>

definition graph_inv :: "GraphData \<Rightarrow> bool" where
  "graph_inv g = (distinct (map address (nodes g)) \<and> distinct (map link_id (links g)))"

text \<open>
  The elements of a page that a merge appends: those whose key is neither in
  the graph (\<open>seen\<close>) nor carried by an earlier element of the same page.
\<close>

fun fresh :: "('a \<Rightarrow> 'k) \<Rightarrow> 'k set \<Rightarrow> 'a list \<Rightarrow> 'a list" where
  "fresh key seen [] = []"
| "fresh key seen (x # xs) =
     (if key x \<in> seen then fresh key seen xs else x # fresh key (insert (key x) seen) xs)"

subsection \<open>The scenario data\<close>

text \<open>
  A first page for the address \<open>A\<close> with one link from \<open>A\<close> to \<open>B\<close>, the same page
  with the link leaving from \<open>X\<close> instead, and a second page that repeats \<open>A\<close>
  with other attributes, repeats the first link and brings a link to an address
  \<open>Z\<close> that no node carries. \<open>after1\<close> is the component once it has rendered
  first and the first page has been accepted.
\<close>

definition nodeA :: GraphNode where
  "nodeA = \<lparr>address = ''A'', address_name = None, node_type = None\<rparr>"

definition nodeB :: GraphNode where
  "nodeB = \<lparr>address = ''B'', address_name = Some ''Bob'', node_type = Some ''token''\<rparr>"

definition nodeA2 :: GraphNode where
  "nodeA2 = \<lparr>address = ''A'', address_name = Some ''Alice'', node_type = Some ''cex''\<rparr>"

definition nodeC :: GraphNode where
  "nodeC = \<lparr>address = ''C'', address_name = None, node_type = Some ''dao''\<rparr>"

definition link1 :: GraphLink where
  "link1 = \<lparr>link_id = ''l1'', link_from = ''A'', link_to = ''B'', source = None, target = None\<rparr>"

definition link2 :: GraphLink where
  "link2 = \<lparr>link_id = ''l2'', link_from = ''A'', link_to = ''Z'', source = None, target = None\<rparr>"

definition page1 :: GraphData where
  "page1 = \<lparr>nodes = [nodeA, nodeB], links = [link1]\<rparr>"

definition pageX :: GraphData where
  "pageX = \<lparr>nodes = [nodeA, nodeB],
            links = [\<lparr>link_id = ''l1'', link_from = ''X'', link_to = ''B'',
                      source = None, target = None\<rparr>]\<rparr>"

definition page2 :: GraphData where
  "page2 = \<lparr>nodes = [nodeA2, nodeC], links = [link1, link2]\<rparr>"

definition after1 :: GraphView where
  "after1 = \<lparr>graphData = \<lparr>nodes = [nodeA, nodeB],
                 links = [link1\<lparr>source := Some nodeA, target := Some nodeB\<rparr>]\<rparr>,
              currentFileIndex = 2, simulation = True\<rparr>"

section \<open>Properties of the built-ins\<close>

lemma slice_first: "0 \<le> n \<Longrightarrow> slice s 0 (Some n) = take (nat n) s"
  by (auto simp: slice_def Let_def min_def)

lemma slice_last: "0 < n \<Longrightarrow> slice s (- n) None = drop (length s - nat n) s"
proof -
  assume n: "0 < n"
  have eq: "nat (int (length s) - n) = length s - nat n"
    using n by arith
  show ?thesis
    using n by (auto simp: slice_def Let_def max_def eq)
qed

lemma Map_has_iff: "Map_has m k \<longleftrightarrow> k \<in> set (map fst m)"
  by (auto simp: Map_has_def list_ex_iff)

lemma Map_set_new: "k \<notin> set (map fst m) \<Longrightarrow> Map_set k v m = m @ [(k, v)]"
  by (induction m) auto

lemma Map_set_keys:
  "map fst (Map_set k v m) = (if k \<in> set (map fst m) then map fst m else map fst m @ [k])"
  by (induction m) auto

lemma Map_set_entries: "set (Map_set k v m) \<subseteq> insert (k, v) (set m)"
  by (induction m) auto

text \<open>Building a map from entries: the keys end up distinct, whatever the entries were.\<close>

lemma fold_set_keys:
  "distinct (map fst m) \<Longrightarrow>
   distinct (map fst (fold (\<lambda>e m. Map_set (fst e) (snd e) m) es m)) \<and>
   set (map fst (fold (\<lambda>e m. Map_set (fst e) (snd e) m) es m)) = set (map fst m) \<union> set (map fst es)"
proof (induction es arbitrary: m)
  case Nil
  then show ?case by simp
next
  case (Cons e es)
  have d: "distinct (map fst (Map_set (fst e) (snd e) m))"
    using Cons.prems by (simp add: Map_set_keys)
  have s: "set (map fst (Map_set (fst e) (snd e) m)) = insert (fst e) (set (map fst m))"
    by (auto simp: Map_set_keys)
  show ?case
    using Cons.IH [OF d] s by auto
qed

lemma fold_set_entries:
  "set (fold (\<lambda>e m. Map_set (fst e) (snd e) m) es m) \<subseteq> set m \<union> set es"
proof (induction es arbitrary: m)
  case Nil
  then show ?case by simp
next
  case (Cons e es)
  show ?case
    using Cons.IH [of "Map_set (fst e) (snd e) m"] Map_set_entries [of "fst e" "snd e" m]
    by auto
qed

lemma fold_set_distinct:
  "distinct (map fst (m @ es)) \<Longrightarrow> fold (\<lambda>e m. Map_set (fst e) (snd e) m) es m = m @ es"
proof (induction es arbitrary: m)
  case Nil
  then show ?case by simp
next
  case (Cons e es)
  have "Map_set (fst e) (snd e) m = m @ [e]"
    using Cons.prems by (simp add: Map_set_new)
  then show ?case
    using Cons.IH [of "m @ [e]"] Cons.prems by simp
qed

lemma Map_new_distinct: "distinct (map fst (Map_new es))"
  using fold_set_keys [of "[]" es] by (simp add: Map_new_def)

lemma Map_new_entries: "set (Map_new es) \<subseteq> set es"
  using fold_set_entries [of es "[]"] by (simp add: Map_new_def)

lemma Map_new_id: "distinct (map fst es) \<Longrightarrow> Map_new es = es"
  using fold_set_distinct [of "[]" es] by (simp add: Map_new_def)

lemma Map_new_keyed:
  "e \<in> set (Map_new (map (\<lambda>x. (key x, x)) xs)) \<Longrightarrow> fst e = key (snd e)"
  using Map_new_entries [of "map (\<lambda>x. (key x, x)) xs"] by auto

lemma Map_new_key_list:
  "map key (map snd (Map_new (map (\<lambda>x. (key x, x)) xs))) =
     map fst (Map_new (map (\<lambda>x. (key x, x)) xs))"
  using Map_new_keyed [of _ key xs] by simp

lemma slice_0_6: "slice a 0 (Some 6) = take 6 a"
  using slice_first [of 6 a] by simp

lemma slice_minus_4: "slice a (- 4) None = drop (length a - 4) a"
  using slice_last [of 4 a] by simp

section \<open>Properties of a merge\<close>

lemma fresh_subset: "set (fresh key seen xs) \<subseteq> set xs"
  by (induction xs arbitrary: seen) auto

lemma fresh_keys: "set (map key (fresh key seen xs)) = set (map key xs) - seen"
  by (induction xs arbitrary: seen) auto

lemma fresh_not_seen: "x \<in> set (fresh key seen xs) \<Longrightarrow> key x \<notin> seen"
  using fresh_keys [of key seen xs] by auto

lemma fresh_distinct: "distinct (map key (fresh key seen xs))"
proof (induction xs arbitrary: seen)
  case Nil
  then show ?case by simp
next
  case (Cons x xs)
  have "key x \<notin> key ` set (fresh key (insert (key x) seen) xs)"
  proof
    assume "key x \<in> key ` set (fresh key (insert (key x) seen) xs)"
    then obtain y where y: "y \<in> set (fresh key (insert (key x) seen) xs)" and k: "key y = key x"
      by auto
    from y have "key y \<notin> insert (key x) seen"
      by (rule fresh_not_seen)
    with k show False by simp
  qed
  then show ?case
    using Cons.IH by simp
qed

lemma fresh_known: "set (map key xs) \<subseteq> seen \<Longrightarrow> fresh key seen xs = []"
  by (induction xs) auto

lemma find_distinct:
  "distinct (map key xs) \<Longrightarrow> n \<in> set xs \<Longrightarrow> find (\<lambda>m. key m = key n) xs = Some n"
  by (induction xs) force+

text \<open>The loop that adds the entries of a page appends exactly the fresh ones.\<close>

lemma fold_add_fresh:
  "fold (\<lambda>x m. if \<not> Map_has m (key x) then Map_set (key x) x m else m) xs m =
     m @ map (\<lambda>x. (key x, x)) (fresh key (set (map fst m)) xs)"
proof (induction xs arbitrary: m)
  case Nil
  then show ?case by simp
next
  case (Cons x xs)
  show ?case
  proof (cases "key x \<in> set (map fst m)")
    case True
    then show ?thesis
      using Cons.IH [of m] by (simp add: Map_has_iff)
  next
    case False
    then show ?thesis
      using Cons.IH [of "m @ [(key x, x)]"] by (simp add: Map_has_iff Map_set_new)
  qed
qed

lemma merged_values:
  "Map_values (fold (\<lambda>x m. if \<not> Map_has m (key x) then Map_set (key x) x m else m) xs m) =
     map snd m @ fresh key (set (map fst m)) xs"
  by (simp add: fold_add_fresh Map_values_def comp_def)

lemma merged_distinct:
  "distinct (map key (map snd (Map_new (map (\<lambda>x. (key x, x)) ys)) @
      fresh key (set (map fst (Map_new (map (\<lambda>x. (key x, x)) ys)))) xs))"
proof -
  let ?M = "Map_new (map (\<lambda>x. (key x, x)) ys)"
  have a: "distinct (map key (map snd ?M))"
    using Map_new_distinct [of "map (\<lambda>x. (key x, x)) ys"] by (simp only: Map_new_key_list)
  have b: "distinct (map key (fresh key (set (map fst ?M)) xs))"
    by (rule fresh_distinct)
  have c: "set (map key (map snd ?M)) \<inter> set (map key (fresh key (set (map fst ?M)) xs)) = {}"
    by (simp only: Map_new_key_list fresh_keys) blast
  show ?thesis
    using a b c by (simp only: map_append distinct_append simp_thms)
qed

lemma updateGraph_nodes_gen:
  "nodes (graphData (fst (updateGraph this d r))) =
     map snd (Map_new (map (\<lambda>n. (address n, n)) (nodes (graphData this)))) @
       fresh address (set (map fst (Map_new (map (\<lambda>n. (address n, n)) (nodes (graphData this))))))
         (nodes d)"
  by (simp add: updateGraph_def Let_def merged_values)

lemma updateGraph_links_gen:
  "links (graphData (fst (updateGraph this d r))) =
     map (\<lambda>link. link\<lparr>source := find (\<lambda>n. address n = link_from link)
                                   (nodes (graphData (fst (updateGraph this d r)))),
                        target := find (\<lambda>n. address n = link_to link)
                                   (nodes (graphData (fst (updateGraph this d r))))\<rparr>)
       (map snd (Map_new (map (\<lambda>l. (link_id l, l)) (links (graphData this)))) @
         fresh link_id (set (map fst (Map_new (map (\<lambda>l. (link_id l, l)) (links (graphData this))))))
           (links d))"
  by (simp add: updateGraph_def Let_def merged_values)

lemma updateGraph_cursor: "currentFileIndex (fst (updateGraph this d r)) = currentFileIndex this"
  by (simp add: updateGraph_def Let_def)

lemma updateGraph_simulation: "simulation (fst (updateGraph this d r)) = simulation this"
  by (simp add: updateGraph_def Let_def)

lemma updateGraph_completion:
  "snd (updateGraph this d r) = renderGraph r (fst (updateGraph this d r))"
  by (simp add: updateGraph_def Let_def)

lemma updateGraph_distinct_nodes:
  "distinct (map address (nodes (graphData (fst (updateGraph this d r)))))"
  by (simp only: updateGraph_nodes_gen merged_distinct)

lemma updateGraph_distinct_links:
  "distinct (map link_id (links (graphData (fst (updateGraph this d r)))))"
proof -
  have "map link_id (links (graphData (fst (updateGraph this d r)))) =
     map link_id (map snd (Map_new (map (\<lambda>l. (link_id l, l)) (links (graphData this)))) @
       fresh link_id (set (map fst (Map_new (map (\<lambda>l. (link_id l, l)) (links (graphData this))))))
         (links d))"
    by (subst updateGraph_links_gen) (simp add: comp_def)
  then show ?thesis
    by (simp only: merged_distinct)
qed

text \<open>Every merge establishes the key invariant, from any state.\<close>

lemma updateGraph_inv: "graph_inv (graphData (fst (updateGraph this d r)))"
  by (simp add: graph_inv_def updateGraph_distinct_nodes updateGraph_distinct_links)

text \<open>On a graph with distinct keys a merge appends: nothing moves, nothing is replaced.\<close>

lemma updateGraph_nodes:
  "graph_inv (graphData this) \<Longrightarrow>
   nodes (graphData (fst (updateGraph this d r))) =
     nodes (graphData this) @ fresh address (set (map address (nodes (graphData this)))) (nodes d)"
  by (simp add: updateGraph_nodes_gen graph_inv_def Map_new_id comp_def)

lemma updateGraph_links:
  "graph_inv (graphData this) \<Longrightarrow>
   links (graphData (fst (updateGraph this d r))) =
     map (\<lambda>link. link\<lparr>source := find (\<lambda>n. address n = link_from link)
                                   (nodes (graphData (fst (updateGraph this d r)))),
                        target := find (\<lambda>n. address n = link_to link)
                                   (nodes (graphData (fst (updateGraph this d r))))\<rparr>)
       (links (graphData this) @
          fresh link_id (set (map link_id (links (graphData this)))) (links d))"
  by (subst updateGraph_links_gen) (simp add: graph_inv_def Map_new_id comp_def)

section \<open>Properties of a fetch\<close>

lemma fetchGraphData_Json:
  "fetchGraphData this i a (Json data) r =
     (if \<exists>l\<in>set (links data). link_from l = a then
        (case snd (updateGraph this data r) of
           Normal \<Rightarrow>
             (fst (updateGraph this data r)\<lparr>currentFileIndex := currentFileIndex this + 1\<rparr>, [], Normal)
         | Thrown \<Rightarrow> (fst (updateGraph this data r), [Error_request], Normal))
      else (this, [Log_not_found a i], Normal))"
proof (cases "updateGraph this data r")
  case (Pair this' c)
  have "currentFileIndex this' = currentFileIndex this"
    using updateGraph_cursor [of this data r] by (simp add: Pair)
  then show ?thesis
    by (cases c) (simp_all add: fetchGraphData_def fetchGraphData_try_def Pair list_ex_iff)
qed

lemma fetchGraphData_failed:
  "resp \<in> {FetchRejected, NotOk, JsonRejected} \<Longrightarrow>
   fetchGraphData this i a resp r =
     (this, [if resp = NotOk then Error_load i a else Error_request], Normal)"
  by (auto simp: fetchGraphData_def fetchGraphData_try_def)

text \<open>The key invariant holds in every state of a session.\<close>

lemma fetchGraphData_inv:
  "graph_inv (graphData this) \<Longrightarrow> graph_inv (graphData (fst (fetchGraphData this i a resp r)))"
proof (cases resp)
  case (Json data)
  assume "graph_inv (graphData this)"
  then show ?thesis
    using updateGraph_inv [of this data r]
    by (cases "snd (updateGraph this data r)") (simp_all add: Json fetchGraphData_Json)
qed (simp_all add: fetchGraphData_failed)

lemma step_inv: "graph_inv (graphData this) \<Longrightarrow> graph_inv (graphData (step this e))"
  by (cases e) (simp_all add: firstUpdated_def initSvg_def onNodeClick_def fetchGraphData_inv)

lemma foldl_step_inv: "graph_inv (graphData this) \<Longrightarrow> graph_inv (graphData (foldl step this evs))"
  by (induction evs arbitrary: this) (simp_all add: step_inv)

lemma run_inv: "graph_inv (graphData (run evs))"
  unfolding run_def by (rule foldl_step_inv) (simp add: init_def graph_inv_def)

lemma fetchGraphData_cursor:
  "currentFileIndex (fst (fetchGraphData this i a resp r)) =
     (if \<exists>d. resp = Json d \<and> (\<exists>l\<in>set (links d). link_from l = a) \<and>
            snd (updateGraph this d r) = Normal
      then currentFileIndex this + 1 else currentFileIndex this)"
proof (cases resp)
  case (Json data)
  then show ?thesis
    by (cases "snd (updateGraph this data r)")
      (simp_all add: fetchGraphData_Json updateGraph_cursor)
qed (simp_all add: fetchGraphData_failed)

lemma step_cursor:
  "currentFileIndex (step this e) =
     (if \<exists>i a d r. e = FetchSettled i a (Json d) r \<and> (\<exists>l\<in>set (links d). link_from l = a) \<and>
            snd (updateGraph this d r) = Normal
      then currentFileIndex this + 1 else currentFileIndex this)"
  by (cases e) (auto simp add: firstUpdated_def initSvg_def onNodeClick_def fetchGraphData_cursor)

lemma foldl_step_cursor: "currentFileIndex this \<le> currentFileIndex (foldl step this evs)"
proof (induction evs arbitrary: this)
  case Nil
  show ?case by simp
next
  case (Cons e evs)
  have "currentFileIndex this \<le> currentFileIndex (step this e)"
    by (simp add: step_cursor)
  also have "\<dots> \<le> currentFileIndex (foldl step (step this e) evs)"
    by (rule Cons.IH)
  finally show ?case by simp
qed

section \<open>The scenario, evaluated\<close>

lemmas scenario_defs =
  nodeA_def nodeB_def nodeA2_def nodeC_def link1_def link2_def page1_def pageX_def page2_def
  after1_def init_def

lemma updateGraph_mounted_page1:
  "updateGraph (initSvg init) page1 Rendered = (after1\<lparr>currentFileIndex := 1\<rparr>, Normal)"
  by (simp add: updateGraph_def Let_def scenario_defs initSvg_def Map_new_def Map_has_def
      Map_values_def renderGraph_def forceLink_links_def)

lemma updateGraph_after1_page1: "fst (updateGraph after1 page1 r) = after1"
  by (simp add: updateGraph_def Let_def scenario_defs Map_new_def Map_has_def Map_values_def)

lemma updateGraph_after1_page2:
  "fst (updateGraph after1 page2 r) =
     \<lparr>graphData = \<lparr>nodes = [nodeA, nodeB, nodeC],
        links = [link1\<lparr>source := Some nodeA, target := Some nodeB\<rparr>,
                 link2\<lparr>source := Some nodeA, target := None\<rparr>]\<rparr>,
      currentFileIndex = 2, simulation = True\<rparr>"
  by (simp add: updateGraph_def Let_def scenario_defs Map_new_def Map_has_def Map_values_def)

lemma updateGraph_after1_page2_thrown: "snd (updateGraph after1 page2 r) = Thrown"
  by (simp add: updateGraph_completion updateGraph_after1_page2 renderGraph_def
      forceLink_links_def)

text \<open>\<open>after1\<close> is the state of a session: first render, then the first page arrives.\<close>

lemma after1_reached: "run [FirstUpdated, FetchSettled 1 ''A'' (Json page1) Rendered] = after1"
proof -
  have m: "\<exists>l\<in>set (links page1). link_from l = ''A''"
    by (simp add: page1_def link1_def)
  have c: "currentFileIndex (initSvg init) = 1"
    by (simp add: initSvg_def init_def)
  show ?thesis
    using m
    by (simp add: run_def firstUpdated_def fetchGraphData_Json updateGraph_mounted_page1 c)
      (simp add: after1_def)
qed

lemma find_resolved:
  assumes d: "distinct (map key xs)"
  shows "(\<forall>n\<in>set xs. key n = k \<longrightarrow> find (\<lambda>n. key n = k) xs = Some n) \<and>
         ((\<forall>n\<in>set xs. key n \<noteq> k) \<longrightarrow> find (\<lambda>n. key n = k) xs = None)"
proof -
  have "find (\<lambda>m. key m = key n) xs = Some n" if "n \<in> set xs" for n
    using d that by (rule find_distinct)
  then show ?thesis
    by (auto simp: find_None_iff)
qed

text \<open>
  What a merge leaves in the links: every link points to the merged node that
  carries its \<open>from\<close> address and to the one that carries its \<open>to\<close> address, and
  an endpoint is undefined exactly when no merged node carries the address.
\<close>

lemma updateGraph_links_resolved:
  assumes "l \<in> set (links (graphData (fst (updateGraph this d r))))"
  shows "(\<forall>n\<in>set (nodes (graphData (fst (updateGraph this d r)))).
            address n = link_from l \<longrightarrow> source l = Some n) \<and>
         (\<forall>n\<in>set (nodes (graphData (fst (updateGraph this d r)))).
            address n = link_to l \<longrightarrow> target l = Some n) \<and>
         ((\<forall>n\<in>set (nodes (graphData (fst (updateGraph this d r)))). address n \<noteq> link_from l) \<longrightarrow>
            source l = None) \<and>
         ((\<forall>n\<in>set (nodes (graphData (fst (updateGraph this d r)))). address n \<noteq> link_to l) \<longrightarrow>
            target l = None)"
proof -
  let ?ns = "nodes (graphData (fst (updateGraph this d r)))"
  have dist: "distinct (map address ?ns)"
    by (rule updateGraph_distinct_nodes)
  obtain l0 where l: "l = l0\<lparr>source := find (\<lambda>n. address n = link_from l0) ?ns,
                              target := find (\<lambda>n. address n = link_to l0) ?ns\<rparr>"
    using assms by (subst (asm) updateGraph_links_gen) auto
  define ns where "ns = ?ns"
  have s: "source l = find (\<lambda>n. address n = link_from l) ns"
    using l unfolding ns_def [symmetric] by simp
  have t: "target l = find (\<lambda>n. address n = link_to l) ns"
    using l unfolding ns_def [symmetric] by simp
  show ?thesis
    using find_resolved [OF dist, of "link_from l"] find_resolved [OF dist, of "link_to l"]
    unfolding ns_def [symmetric] by (simp only: s t) blast
qed

lemma updateGraph_dangling:
  assumes "l \<in> set (links (graphData (fst (updateGraph this d r))))"
  shows "(source l = None \<or> target l = None) \<longleftrightarrow>
         (link_from l \<notin> address ` set (nodes (graphData (fst (updateGraph this d r)))) \<or>
          link_to l \<notin> address ` set (nodes (graphData (fst (updateGraph this d r)))))"
  using updateGraph_links_resolved [OF assms] by (auto simp: image_iff)

text \<open>
  When \<open>updateGraph\<close> throws: the component has its d3 handles, and either the
  merged graph has a link with an address that no merged node carries, or one
  of the later d3 calls throws.
\<close>

lemma updateGraph_Thrown_iff:
  "snd (updateGraph this d r) = Thrown \<longleftrightarrow>
     simulation this \<and>
     ((\<exists>l\<in>set (links (graphData (fst (updateGraph this d r)))).
         link_from l \<notin> address ` set (nodes (graphData (fst (updateGraph this d r)))) \<or>
         link_to l \<notin> address ` set (nodes (graphData (fst (updateGraph this d r))))) \<or>
      r = RenderThrew)"
proof -
  let ?g = "graphData (fst (updateGraph this d r))"
  have "(\<exists>l\<in>set (links ?g). source l = None \<or> target l = None) \<longleftrightarrow>
        (\<exists>l\<in>set (links ?g). link_from l \<notin> address ` set (nodes ?g) \<or>
                              link_to l \<notin> address ` set (nodes ?g))"
    using updateGraph_dangling [of _ this d r] by blast
  then show ?thesis
    by (cases r)
      (auto simp: updateGraph_completion renderGraph_def forceLink_links_def list_ex_iff
        updateGraph_simulation)
qed

text \<open>
  A page whose merge renders is accepted if and only if one of its links
  leaves from the queried address.
\<close>

lemma fetchGraphData_accepts:
  assumes "snd (updateGraph this data r) = Normal"
  shows "(fst (fetchGraphData this i a (Json data) r) =
            fst (updateGraph this data r)\<lparr>currentFileIndex := currentFileIndex this + 1\<rparr>)
          = (\<exists>l\<in>set (links data). link_from l = a) \<and>
         (\<not> (\<exists>l\<in>set (links data). link_from l = a) \<longrightarrow>
            fetchGraphData this i a (Json data) r = (this, [Log_not_found a i], Normal))"
proof -
  have neq: "fst (updateGraph this data r)\<lparr>currentFileIndex := currentFileIndex this + 1\<rparr> \<noteq> this"
  proof
    assume "fst (updateGraph this data r)\<lparr>currentFileIndex := currentFileIndex this + 1\<rparr> = this"
    then have "currentFileIndex
        (fst (updateGraph this data r)\<lparr>currentFileIndex := currentFileIndex this + 1\<rparr>) =
        currentFileIndex this"
      by simp
    then show False by simp
  qed
  show ?thesis
    using neq assms by (auto simp: fetchGraphData_Json)
qed

section \<open>The claims\<close>

text \<open>
  C1. The claim: a page that arrives with a successful response is accepted,
  that is merged into the graph by \<open>updateGraph\<close> with the page cursor
  incremented, if and only if one of its links has \<open>from\<close> equal to the queried
  address. The code misses it on a page that has such a link and also a link
  to an address no node carries. With the first page accepted, the second page
  arrives for address \<open>A\<close>: it has links from \<open>A\<close>, and the graph is merged, but
  the cursor stays at 2 and the console gets the error line of the \<open>catch\<close>
  clause, whatever the later d3 calls would have done.
\<close>

theorem accepted_page_cursor_not_advanced:
  "list_ex (\<lambda>l. link_from l = ''A'') (links page2) \<and>
   fetchGraphData after1 2 ''A'' (Json page2) r =
     (\<lparr>graphData = \<lparr>nodes = [nodeA, nodeB, nodeC],
         links = [link1\<lparr>source := Some nodeA, target := Some nodeB\<rparr>,
                  link2\<lparr>source := Some nodeA, target := None\<rparr>]\<rparr>,
       currentFileIndex = 2, simulation = True\<rparr>,
      [Error_request], Normal)"
proof -
  have m: "\<exists>l\<in>set (links page2). link_from l = ''A''"
    by (simp add: page2_def link1_def)
  show ?thesis
    using m
    by (simp add: fetchGraphData_Json updateGraph_after1_page2_thrown updateGraph_after1_page2
        list_ex_iff)
qed

text \<open>
  C2. The claim: after a merge every link points to the merged nodes that carry
  its \<open>from\<close> and \<open>to\<close> addresses, and a link with an address that no merged node
  carries is tolerated, the merge not failing. The code resolves the links as
  claimed and leaves the missing endpoint undefined, but then \<open>updateGraph\<close>
  throws: merging the second page into the graph of the first leaves \<open>target\<close>
  of the link to \<open>Z\<close> undefined, and the call ends by throwing, whatever the
  later d3 calls would have done.
\<close>

theorem merge_with_dangling_link_throws:
  "updateGraph after1 page2 r =
     (\<lparr>graphData = \<lparr>nodes = [nodeA, nodeB, nodeC],
         links = [link1\<lparr>source := Some nodeA, target := Some nodeB\<rparr>,
                  link2\<lparr>source := Some nodeA, target := None\<rparr>]\<rparr>,
       currentFileIndex = 2, simulation = True\<rparr>,
      Thrown)"
  using updateGraph_after1_page2 [of r] updateGraph_after1_page2_thrown [of r]
  by (cases "updateGraph after1 page2 r") simp

text \<open>
  C3. On a graph whose nodes have distinct addresses and whose links have
  distinct ids (every graph the component holds is one, see \<open>updateGraph_inv\<close>),
  merging a page whose node addresses and link ids are all in the graph
  already leaves the number of nodes and the number of links as they were.
\<close>

theorem merge_known_keeps_counts:
  assumes "graph_inv (graphData this)"
    and "set (map address (nodes d)) \<subseteq> set (map address (nodes (graphData this)))"
    and "set (map link_id (links d)) \<subseteq> set (map link_id (links (graphData this)))"
  shows "length (nodes (graphData (fst (updateGraph this d r)))) = length (nodes (graphData this)) \<and>
         length (links (graphData (fst (updateGraph this d r)))) = length (links (graphData this))"
proof -
  have n: "fresh address (set (map address (nodes (graphData this)))) (nodes d) = []"
    using assms(2) by (rule fresh_known)
  have l: "fresh link_id (set (map link_id (links (graphData this)))) (links d) = []"
    using assms(3) by (rule fresh_known)
  show ?thesis
    using n l by (simp add: updateGraph_nodes [OF assms(1)] updateGraph_links [OF assms(1)])
qed

theorem merge_known_keeps_counts_witness:
  "graph_inv (graphData after1) \<and>
   set (map address (nodes page1)) \<subseteq> set (map address (nodes (graphData after1))) \<and>
   set (map link_id (links page1)) \<subseteq> set (map link_id (links (graphData after1))) \<and>
   length (nodes (graphData (fst (updateGraph after1 page1 Rendered)))) = 2 \<and>
   length (links (graphData (fst (updateGraph after1 page1 Rendered)))) = 1"
proof -
  have i: "graph_inv (graphData after1)"
    by (simp add: graph_inv_def scenario_defs)
  have n: "set (map address (nodes page1)) \<subseteq> set (map address (nodes (graphData after1)))"
    by (simp add: scenario_defs)
  have l: "set (map link_id (links page1)) \<subseteq> set (map link_id (links (graphData after1)))"
    by (simp add: scenario_defs)
  show ?thesis
    using i n l merge_known_keeps_counts [OF i n l, of Rendered]
    by (simp add: after1_def)
qed

text \<open>
  C4. The graph only grows. On a graph with distinct keys, a merge keeps the
  node list as a prefix of the merged one, every node as it was, and keeps the
  links in place with their id, \<open>from\<close> and \<open>to\<close>; and where a page brings a node
  under an address the graph has already, the merged graph holds the node it had:
  the first one seen stays, with its \<open>address_name\<close> and \<open>type\<close>.
\<close>

theorem graph_grows:
  assumes "graph_inv (graphData this)"
  shows "take (length (nodes (graphData this))) (nodes (graphData (fst (updateGraph this d r)))) =
           nodes (graphData this) \<and>
         map (\<lambda>l. (link_id l, link_from l, link_to l))
             (take (length (links (graphData this))) (links (graphData (fst (updateGraph this d r))))) =
           map (\<lambda>l. (link_id l, link_from l, link_to l)) (links (graphData this)) \<and>
         (\<forall>m\<in>set (nodes (graphData (fst (updateGraph this d r)))).
            \<forall>n\<in>set (nodes (graphData this)). address m = address n \<longrightarrow> m = n)"
proof -
  let ?g = "graphData this"
  let ?g' = "graphData (fst (updateGraph this d r))"
  have n: "nodes ?g' = nodes ?g @ fresh address (set (map address (nodes ?g))) (nodes d)"
    using assms by (rule updateGraph_nodes)
  have a: "take (length (nodes ?g)) (nodes ?g') = nodes ?g"
    by (simp add: n)
  have b: "map (\<lambda>l. (link_id l, link_from l, link_to l)) (take (length (links ?g)) (links ?g')) =
           map (\<lambda>l. (link_id l, link_from l, link_to l)) (links ?g)"
    by (subst updateGraph_links [OF assms]) (simp add: take_map comp_def)
  have dist: "distinct (map address (nodes ?g'))"
    by (rule updateGraph_distinct_nodes)
  have c: "m = n" if m: "m \<in> set (nodes ?g')" and n': "n \<in> set (nodes ?g)" and e: "address m = address n" for m n
  proof -
    have "n \<in> set (nodes ?g')" using n' by (simp add: n)
    then have "find (\<lambda>k. address k = address n) (nodes ?g') = Some n"
      using dist by (simp add: find_distinct)
    moreover have "find (\<lambda>k. address k = address m) (nodes ?g') = Some m"
      using dist m by (simp add: find_distinct)
    ultimately show ?thesis using e by simp
  qed
  show ?thesis using a b c by blast
qed

theorem graph_grows_witness:
  "graph_inv (graphData after1) \<and>
   nodes (graphData (fst (updateGraph after1 page2 Rendered))) = [nodeA, nodeB, nodeC] \<and>
   take (length (nodes (graphData after1))) (nodes (graphData (fst (updateGraph after1 page2 Rendered)))) =
     nodes (graphData after1) \<and>
   nodeA2 \<in> set (nodes page2) \<and> address nodeA2 = address nodeA \<and> nodeA2 \<noteq> nodeA \<and>
   nodeA \<in> set (nodes (graphData (fst (updateGraph after1 page2 Rendered)))) \<and>
   nodeA2 \<notin> set (nodes (graphData (fst (updateGraph after1 page2 Rendered))))"
proof -
  have i: "graph_inv (graphData after1)"
    by (simp add: graph_inv_def scenario_defs)
  show ?thesis
    using i graph_grows [OF i, of page2 Rendered]
    by (simp add: updateGraph_after1_page2) (simp add: scenario_defs)
qed

text \<open>
  C5. The page cursor starts at 1. An event changes it only by adding one, and
  does so exactly when it is the arrival of a page that is accepted (the
  response is successful and a link of the page has \<open>from\<close> equal to the queried
  address) and whose merge returns; a failed fetch, a rejected page, a click
  and the first render leave it as it is. So over a session it never falls
  below 1 nor below any value it had.
\<close>

theorem cursor_lifecycle:
  "currentFileIndex init = 1 \<and>
   currentFileIndex (step this e) =
     (if \<exists>i a d r. e = FetchSettled i a (Json d) r \<and> (\<exists>l\<in>set (links d). link_from l = a) \<and>
            snd (updateGraph this d r) = Normal
      then currentFileIndex this + 1 else currentFileIndex this) \<and>
   1 \<le> currentFileIndex (run evs) \<and>
   currentFileIndex (run evs) \<le> currentFileIndex (run (evs @ evs'))"
proof -
  have a: "currentFileIndex init = 1"
    by (simp add: init_def)
  have b: "1 \<le> currentFileIndex (run evs)"
    using foldl_step_cursor [of init evs] by (simp add: run_def a)
  have c: "currentFileIndex (run evs) \<le> currentFileIndex (run (evs @ evs'))"
    using foldl_step_cursor [of "foldl step init evs" evs'] by (simp add: run_def)
  show ?thesis
    using a b c by (simp only: step_cursor simp_thms)
qed

theorem cursor_lifecycle_witness:
  "currentFileIndex (step (initSvg init) (FetchSettled 1 ''A'' (Json page1) Rendered)) = 2 \<and>
   currentFileIndex (step (initSvg init) (FetchSettled 1 ''A'' (Json pageX) Rendered)) = 1 \<and>
   currentFileIndex (step (initSvg init) (FetchSettled 1 ''A'' NotOk Rendered)) = 1 \<and>
   currentFileIndex (step after1 (FetchSettled 2 ''A'' (Json page2) Rendered)) = 2 \<and>
   currentFileIndex (step after1 (NodeClick nodeB)) = 2"
  using cursor_lifecycle [of "initSvg init" "FetchSettled 1 ''A'' (Json page1) Rendered"]
    cursor_lifecycle [of "initSvg init" "FetchSettled 1 ''A'' (Json pageX) Rendered"]
    cursor_lifecycle [of "initSvg init" "FetchSettled 1 ''A'' NotOk Rendered"]
    cursor_lifecycle [of after1 "FetchSettled 2 ''A'' (Json page2) Rendered"]
    cursor_lifecycle [of after1 "NodeClick nodeB"]
  by (simp add: updateGraph_mounted_page1 updateGraph_after1_page2_thrown)
    (simp add: page1_def pageX_def page2_def link1_def after1_def initSvg_def init_def)

text \<open>
  C6. When \<open>fetch\<close> rejects, the response is not \<open>ok\<close>, or \<open>resp.json()\<close> rejects,
  \<open>fetchGraphData\<close> leaves the component's state (graph and cursor) as it was,
  writes one error line to the console, and returns normally.
\<close>

theorem fetch_failure_changes_nothing:
  assumes "resp = FetchRejected \<or> resp = NotOk \<or> resp = JsonRejected"
  shows "fst (fetchGraphData this i a resp r) = this \<and>
         fst (snd (fetchGraphData this i a resp r)) =
           [if resp = NotOk then Error_load i a else Error_request] \<and>
         snd (snd (fetchGraphData this i a resp r)) = Normal"
  using assms fetchGraphData_failed [of resp this i a r] by auto

theorem fetch_failure_changes_nothing_witness:
  "(NotOk = FetchRejected \<or> NotOk = NotOk \<or> NotOk = JsonRejected) \<and>
   fst (fetchGraphData after1 2 ''B'' NotOk Rendered) = after1 \<and>
   fst (snd (fetchGraphData after1 2 ''B'' NotOk Rendered)) = [Error_load 2 ''B''] \<and>
   snd (snd (fetchGraphData after1 2 ''B'' NotOk Rendered)) = Normal"
  using fetch_failure_changes_nothing [of NotOk after1 2 "''B''" Rendered] by simp

text \<open>
  C7. A click on a node leaves the state as it is and sends a request for the
  current cursor value and the node's address if and only if the cursor is at
  most 3; at cursor 4 it sends none.
\<close>

theorem click_fetches_up_to_3:
  "fst (onNodeClick this d) = this \<and>
   (snd (snd (onNodeClick this d)) = Some (currentFileIndex this, address d)) =
     (currentFileIndex this \<le> 3) \<and>
   (snd (snd (onNodeClick this d)) = None) = (3 < currentFileIndex this) \<and>
   (currentFileIndex this = 4 \<longrightarrow>
      onNodeClick this d = (this, [Log_click (address d) 4], None))"
  by (auto simp: onNodeClick_def)

theorem click_fetches_up_to_3_witness:
  "currentFileIndex (after1\<lparr>currentFileIndex := 4\<rparr>) = 4 \<and>
   onNodeClick (after1\<lparr>currentFileIndex := 4\<rparr>) nodeB =
     (after1\<lparr>currentFileIndex := 4\<rparr>, [Log_click ''B'' 4], None) \<and>
   snd (snd (onNodeClick after1 nodeB)) = Some (2, ''B'')"
  using click_fetches_up_to_3 [of "after1\<lparr>currentFileIndex := 4\<rparr>" nodeB]
    click_fetches_up_to_3 [of after1 nodeB]
  by (simp add: nodeB_def after1_def)

text \<open>
  C8, as stated: the label is the display name whenever the node has one. It
  fails for a node whose display name is the empty string.
\<close>

theorem label_present_name_counterexample:
  "address_name \<lparr>address = ''0x2be59e62d811a1a8a25a937c4812313cf8bbe428'', address_name = Some '''',
       node_type = None\<rparr> = Some '''' \<and>
   getNodeLabel \<lparr>address = ''0x2be59e62d811a1a8a25a937c4812313cf8bbe428'', address_name = Some '''',
       node_type = None\<rparr> \<noteq> ''''"
  by (simp add: getNodeLabel_def truthy_def)

text \<open>
  C8, amended. The label is the display name when the node has one that is not
  empty; otherwise it is the first 6 characters of the address, then \<open>...\<close>,
  then the last 4 characters of the address. For the seed address and no
  display name it is \<open>0x2be5...e428\<close>.
\<close>

theorem label_policy:
  "getNodeLabel n =
     (case address_name n of
        None \<Rightarrow> take 6 (address n) @ ''...'' @ drop (length (address n) - 4) (address n)
      | Some name \<Rightarrow>
          if name = [] then take 6 (address n) @ ''...'' @ drop (length (address n) - 4) (address n)
          else name) \<and>
   getNodeLabel \<lparr>address = ''0x2be59e62d811a1a8a25a937c4812313cf8bbe428'', address_name = None,
       node_type = t\<rparr> = ''0x2be5...e428''"
  by (simp add: getNodeLabel_def truthy_def slice_0_6 slice_minus_4 split: option.split)

text \<open>
  C9. The colour of a node is orange for the category \<open>cex\<close>, purple for
  \<open>stakingpool\<close>, green for \<open>token\<close>, blue for \<open>dao\<close>, red for \<open>gambling\<close>, and the
  grey \<open>#666\<close> for every other category and for a node without one.
\<close>

theorem color_policy:
  "getNodeColor (n\<lparr>node_type := Some ''cex''\<rparr>) = ''orange'' \<and>
   getNodeColor (n\<lparr>node_type := Some ''stakingpool''\<rparr>) = ''purple'' \<and>
   getNodeColor (n\<lparr>node_type := Some ''token''\<rparr>) = ''green'' \<and>
   getNodeColor (n\<lparr>node_type := Some ''dao''\<rparr>) = ''blue'' \<and>
   getNodeColor (n\<lparr>node_type := Some ''gambling''\<rparr>) = ''red'' \<and>
   getNodeColor (n\<lparr>node_type := None\<rparr>) = ''#666'' \<and>
   (t \<notin> {''cex'', ''stakingpool'', ''token'', ''dao'', ''gambling''} \<longrightarrow>
      getNodeColor (n\<lparr>node_type := Some t\<rparr>) = ''#666'')"
  by (simp add: getNodeColor_def)

theorem color_policy_witness:
  "''unknown-category'' \<notin> {''cex'', ''stakingpool'', ''token'', ''dao'', ''gambling''} \<and>
   getNodeColor (nodeB\<lparr>node_type := Some ''unknown-category''\<rparr>) = ''#666'' \<and>
   getNodeColor nodeB = ''green''"
  using color_policy [of nodeB "''unknown-category''"] by (simp add: nodeB_def)

text \<open>
  C10. A node whose display name is the empty string is labelled like a node
  without one: first 6 characters of the address, \<open>...\<close>, last 4 characters.
\<close>

theorem empty_name_label:
  assumes "address_name n = Some []"
  shows "getNodeLabel n = take 6 (address n) @ ''...'' @ drop (length (address n) - 4) (address n)"
  using assms by (simp add: getNodeLabel_def truthy_def slice_0_6 slice_minus_4)

theorem empty_name_label_witness:
  "address_name \<lparr>address = seed, address_name = Some [], node_type = None\<rparr> = Some [] \<and>
   getNodeLabel \<lparr>address = seed, address_name = Some [], node_type = None\<rparr> = ''0x2be5...e428''"
  using empty_name_label [of "\<lparr>address = seed, address_name = Some [], node_type = None\<rparr>"]
  by (simp add: seed_def)

end
